theory Spec2Isabelle
  imports Complex_Main
begin

section \<open>The sequence game of MemoryPal (src/scripts/games/sequence.js)\<close>

text \<open>
  The class \<open>SequenceGame\<close> is embedded as a record of its fields and one function per
  method. What the methods do to the page (classes, labels, focus), to the audio manager
  and to the storage manager is left out: those collaborators are called behind
  \<open>if (window.x)\<close> guards and never write a field of the game. What is kept of the
  environment is what the game's fields depend on:
  \<^item> \<open>document.querySelector\<close> for a colour button, whose result the click handler
    dereferences;
  \<^item> the page elements \<open>gameArea\<close>, \<open>board\<close> and \<open>pauseBtn\<close> that \<open>startGame\<close> and
    \<open>togglePause\<close> dereference without a check;
  \<^item> whether \<open>window.accessibilityManager\<close> is there, whose \<open>setGameSpeed\<close> throws for
    two of the speeds;
  \<^item> \<open>Math.random\<close>, as the sequence of numbers it returns;
  \<^item> \<open>setTimeout\<close>, as a queue of pending callbacks with their due times. Timers whose
    callbacks touch only the page (removing a CSS class, showing the restart prompt) are
    not queued.
\<close>

subsection \<open>Values\<close>

text \<open>
  A colour is a JavaScript value: a string, or \<open>undefined\<close> (what an array read out of
  range gives, and what \<open>btn.dataset.color\<close> gives for a button without the attribute).
  \<open>===\<close> on these values is equality of the datatype.
\<close>

datatype jsval = Undefined | Str string

text \<open>\<open>xs[i]\<close>: \<open>undefined\<close> outside the array.\<close>

definition js_index :: "jsval list \<Rightarrow> int \<Rightarrow> jsval" where
  "js_index xs i = (if 0 \<le> i \<and> i < int (length xs) then xs ! nat i else Undefined)"

text \<open>\<open>this.colors\<close>, set in the constructor and never written again.\<close>

definition colors :: "jsval list" where
  "colors = [Str ''red'', Str ''blue'', Str ''green'', Str ''yellow'']"

datatype error = TypeError | SyntaxError | InvalidCharacterError

text \<open>
  What \<open>document.querySelector(`[data-color="${color}"]`)\<close> does for a colour: it returns
  an element, returns \<open>null\<close>, or throws because the selector does not parse.
\<close>

datatype lookup = Element | Null | BadSelector

record env =
  querySelector :: "jsval \<Rightarrow> lookup"
  mathRandom :: "nat \<Rightarrow> real"
  hasGameArea :: bool
  hasBoard :: bool
  hasPauseBtn :: bool
  hasAccessibilityManager :: bool

text \<open>
  The callbacks given to \<open>setTimeout\<close> that write the game's fields: \<open>endGame\<close> (line 471),
  the level advance (lines 505-509), and the rest of the presentation loop after
  \<open>await this.delay(interval)\<close> in iteration \<open>i\<close> (line 348).
\<close>

datatype callback = EndGame | LevelUp | ShowNext nat nat

record game =
  sequence :: "jsval list"
  playerSequence :: "jsval list"
  level :: int
  score :: int
  isPlaying :: bool
  isShowingSequence :: bool
  isPlayerTurn :: bool
  isPaused :: bool
  difficulty :: string
  speed :: int
  timers :: "(nat \<times> callback) list"
  clock :: nat
  draws :: nat
  gameOvers :: "int list"

text \<open>
  \<open>timers\<close> holds the pending callbacks with their due times in milliseconds, in the
  order they were scheduled; \<open>clock\<close> is the current time; \<open>draws\<close> counts the calls of
  \<open>Math.random\<close> so far; \<open>gameOvers\<close> lists the scores that \<open>endGame\<close> has announced
  (\<open>Game Over! Final Score: ...\<close>, and the score handed to the store), latest last.
  Levels and scores are JavaScript numbers, that is doubles. They only ever hold integers,
  and are modelled as \<open>int\<close>. Sums and products of integers are exact in doubles as long
  as operands and result lie between \<open>- 2^53\<close> and \<open>2^53\<close>; beyond that a double is
  rounded and the model is not the code. What is stated about the arithmetic of scores is
  therefore stated for values in that range (\<open>exact\<close> below).
\<close>

definition exact :: "int \<Rightarrow> bool" where
  "exact x = (- (2 ^ 53) \<le> x \<and> x \<le> 2 ^ 53)"

datatype result = Returned game | Threw error game | Hangs

text \<open>
  A method returns, throws (the fields keep what was written before the throw), or never
  returns.
\<close>

text \<open>
  The game as the constructor leaves it, \<open>loadSettings\<close> having read difficulty and speed
  (there is a game only if \<open>updateDifficulty\<close> and \<open>updateSpeed\<close> did not throw there).
\<close>

definition newGame :: "string \<Rightarrow> int \<Rightarrow> game" where
  "newGame d v =
     \<lparr>sequence = [], playerSequence = [], level = 1, score = 0, isPlaying = False,
      isShowingSequence = False, isPlayerTurn = False, isPaused = False,
      difficulty = d, speed = v, timers = [], clock = 0, draws = 0, gameOvers = []\<rparr>"

definition schedule :: "nat \<Rightarrow> callback \<Rightarrow> game \<Rightarrow> game" where
  "schedule ms cb s = s\<lparr>timers := timers s @ [(clock s + ms, cb)]\<rparr>"

subsection \<open>Growing the sequence\<close>

definition resetGame :: "game \<Rightarrow> game" where
  "resetGame s =
     s\<lparr>sequence := [], playerSequence := [], level := 1, score := 0, isPlaying := False,
       isShowingSequence := False, isPlayerTurn := False, isPaused := False\<rparr>"

text \<open>\<open>cs[Math.floor(Math.random() * cs.length)]\<close>, with the \<open>k\<close>-th random number.\<close>

definition randomColor :: "env \<Rightarrow> jsval list \<Rightarrow> nat \<Rightarrow> jsval" where
  "randomColor e cs k = js_index cs \<lfloor>mathRandom e k * real (length cs)\<rfloor>"

text \<open>
  The \<open>do ... while\<close> of case \<open>"easy"\<close>: draw, and draw again while the sequence is not
  empty and the draw equals its last element. It returns the colour and the number of
  random numbers used so far, or nothing when the loop never ends.
\<close>

partial_function (option) easyDraw :: "env \<Rightarrow> jsval list \<Rightarrow> nat \<Rightarrow> (jsval \<times> nat) option" where
  "easyDraw e sq k =
     (if length sq > 0 \<and> randomColor e colors k = js_index sq (int (length sq) - 1)
      then easyDraw e sq (Suc k)
      else Some (randomColor e colors k, Suc k))"

declare easyDraw.simps [code]

definition getRecentErrorRate :: real where
  "getRecentErrorRate = 3 / 10"

definition getAdaptiveColor :: "env \<Rightarrow> game \<Rightarrow> jsval" where
  "getAdaptiveColor e s =
     (let recentErrors = getRecentErrorRate in
      if recentErrors > 5 / 10 then
        (let availableColors =
               filter (\<lambda>color. length (sequence s) = 0 \<or>
                         color \<noteq> js_index (sequence s) (int (length (sequence s)) - 1)) colors
         in randomColor e availableColors (draws s))
      else if recentErrors < 2 / 10 then randomColor e colors (draws s)
      else randomColor e colors (draws s))"

text \<open>
  The \<open>switch\<close> of \<open>addToSequence\<close>: the new colour and the number of random numbers used
  after it.
\<close>

definition chooseColor :: "env \<Rightarrow> game \<Rightarrow> (jsval \<times> nat) option" where
  "chooseColor e s =
     (if difficulty s = ''easy'' then easyDraw e (sequence s) (draws s)
      else if difficulty s = ''medium'' then Some (randomColor e colors (draws s), Suc (draws s))
      else if difficulty s = ''hard'' then Some (randomColor e colors (draws s), Suc (draws s))
      else if difficulty s = ''adaptive'' then Some (getAdaptiveColor e s, Suc (draws s))
      else Some (randomColor e colors (draws s), Suc (draws s)))"

definition addToSequence :: "env \<Rightarrow> game \<Rightarrow> game option" where
  "addToSequence e s =
     (case chooseColor e s of
        None \<Rightarrow> None
      | Some (newColor, k) \<Rightarrow> Some (s\<lparr>sequence := sequence s @ [newColor], draws := k\<rparr>))"

subsection \<open>Presenting the sequence\<close>

text \<open>
  \<open>baseInterval * speedMultiplier\<close>: 800 times 1.5, 1.25, 1.0, 0.8, 0.6. A speed outside
  1..5 reads \<open>undefined\<close> from the table, the product is \<open>NaN\<close>, and \<open>setTimeout\<close> takes
  \<open>NaN\<close> as 0.
\<close>

definition speedInterval :: "int \<Rightarrow> nat" where
  "speedInterval v =
     (if v = 1 then 1200 else if v = 2 then 1000 else if v = 3 then 800
      else if v = 4 then 640 else if v = 5 then 480 else 0)"

definition startPlayerTurn :: "game \<Rightarrow> game" where
  "startPlayerTurn s = s\<lparr>isShowingSequence := False, isPlayerTurn := True\<rparr>"

text \<open>
  The \<open>for\<close> loop of \<open>showSequence\<close> from its test at index \<open>i\<close>: it either suspends at
  the \<open>await\<close> of iteration \<open>i\<close>, or leaves the loop (by the test or by \<open>break\<close>) and runs
  the final \<open>if\<close>.
\<close>

definition showLoop :: "nat \<Rightarrow> nat \<Rightarrow> game \<Rightarrow> game" where
  "showLoop interval i s =
     (if i < length (sequence s) \<and> \<not> (\<not> isPlaying s \<or> isPaused s)
      then schedule interval (ShowNext interval i) s
      else if isPlaying s \<and> \<not> isPaused s then startPlayerTurn s
      else s)"

definition showSequence :: "game \<Rightarrow> game" where
  "showSequence s =
     showLoop (speedInterval (speed s)) 0 (s\<lparr>isShowingSequence := True, isPlayerTurn := False\<rparr>)"

definition nextLevel :: "env \<Rightarrow> game \<Rightarrow> game option" where
  "nextLevel e s = map_option showSequence (addToSequence e (s\<lparr>playerSequence := []\<rparr>))"

definition startGame :: "env \<Rightarrow> game \<Rightarrow> result" where
  "startGame e s =
     (let s1 = (resetGame s)\<lparr>isPlaying := True\<rparr> in
      if \<not> hasGameArea e then Threw TypeError s1
      else if \<not> hasBoard e then Threw TypeError s1
      else (case nextLevel e s1 of None \<Rightarrow> Hangs | Some s2 \<Rightarrow> Returned s2))"

subsection \<open>The player's turn\<close>

definition handleCorrectColor :: "game \<Rightarrow> game" where
  "handleCorrectColor s = s\<lparr>score := score s + 10 * level s\<rparr>"

definition handleIncorrectColor :: "game \<Rightarrow> game" where
  "handleIncorrectColor s = schedule 1500 EndGame s"

definition handleSequenceComplete :: "game \<Rightarrow> game" where
  "handleSequenceComplete s =
     schedule 2000 LevelUp (s\<lparr>isPlayerTurn := False, score := score s + level s * 50\<rparr>)"

definition handleColorClick :: "env \<Rightarrow> game \<Rightarrow> jsval \<Rightarrow> result" where
  "handleColorClick e s color =
     (if \<not> isPlayerTurn s \<or> isPaused s then Returned s
      else (case querySelector e color of
              BadSelector \<Rightarrow> Threw SyntaxError s
            | Null \<Rightarrow> Threw TypeError s
            | Element \<Rightarrow>
                (let s1 = s\<lparr>playerSequence := playerSequence s @ [color]\<rparr>;
                     currentIndex = int (length (playerSequence s1)) - 1;
                     expectedColor = js_index (sequence s1) currentIndex
                 in if color = expectedColor then
                      (let s2 = handleCorrectColor s1 in
                       if length (playerSequence s2) = length (sequence s2)
                       then Returned (handleSequenceComplete s2)
                       else Returned s2)
                    else Returned (handleIncorrectColor s1))))"

definition endGame :: "game \<Rightarrow> game" where
  "endGame s = s\<lparr>isPlaying := False, isPlayerTurn := False, gameOvers := gameOvers s @ [score s]\<rparr>"

definition replaySequence :: "game \<Rightarrow> game" where
  "replaySequence s =
     (if \<not> isPlaying s \<or> isShowingSequence s \<or> length (sequence s) = 0 then s
      else showSequence (s\<lparr>playerSequence := []\<rparr>))"

definition togglePause :: "env \<Rightarrow> game \<Rightarrow> result" where
  "togglePause e s =
     (if \<not> isPlaying s then Returned s
      else (let s1 = s\<lparr>isPaused := \<not> isPaused s\<rparr> in
            if \<not> hasPauseBtn e then Threw TypeError s1 else Returned s1))"

text \<open>
  \<open>setDifficulty\<close> writes the field and calls \<open>updateDifficulty\<close>, whose
  \<open>classList.add(`difficulty-${this.difficulty}`)\<close> throws when the token has ASCII
  whitespace (tab, line feed, form feed, carriage return, space). \<open>setSpeed\<close> writes the
  field and calls \<open>updateSpeed\<close>; with the accessibility manager of this repository
  present, its \<open>setGameSpeed\<close> adds the class \<open>speed-very slow\<close> for speed 1 and
  \<open>speed-very fast\<close> for speed 5, and \<open>classList.add\<close> throws for both. The handlers of
  the two settings controls do the same.
\<close>

definition asciiWhitespace :: "char list" where
  "asciiWhitespace = [CHR 0x09, CHR 0x0A, CHR 0x0C, CHR 0x0D, CHR 0x20]"

definition setDifficulty :: "string \<Rightarrow> game \<Rightarrow> result" where
  "setDifficulty d s =
     (let s1 = s\<lparr>difficulty := d\<rparr> in
      if set d \<inter> set asciiWhitespace \<noteq> {} then Threw InvalidCharacterError s1
      else Returned s1)"

definition setSpeed :: "env \<Rightarrow> int \<Rightarrow> game \<Rightarrow> result" where
  "setSpeed e v s =
     (let s1 = s\<lparr>speed := v\<rparr> in
      if hasAccessibilityManager e \<and> (v = 1 \<or> v = 5) then Threw InvalidCharacterError s1
      else Returned s1)"

record stats =
  stats_level :: int
  stats_score :: int
  stats_sequence :: "jsval list"
  stats_isPlaying :: bool

definition getCurrentStats :: "game \<Rightarrow> stats" where
  "getCurrentStats s =
     \<lparr>stats_level = level s, stats_score = score s, stats_sequence = sequence s,
      stats_isPlaying = isPlaying s\<rparr>"

subsection \<open>Timers and events\<close>

definition fireCallback :: "env \<Rightarrow> callback \<Rightarrow> game \<Rightarrow> result" where
  "fireCallback e cb s =
     (case cb of
        EndGame \<Rightarrow> Returned (endGame s)
      | LevelUp \<Rightarrow>
          (case nextLevel e (s\<lparr>level := level s + 1\<rparr>) of
             None \<Rightarrow> Hangs
           | Some s' \<Rightarrow> Returned s')
      | ShowNext interval i \<Rightarrow> Returned (showLoop interval (Suc i) s))"

text \<open>The pending timer that is due first; among equal due times, the one set first.\<close>

fun nextTimer :: "(nat \<times> callback) list \<Rightarrow> (nat \<times> callback) option" where
  "nextTimer [] = None"
| "nextTimer (t # ts) =
     (case nextTimer ts of
        None \<Rightarrow> Some t
      | Some u \<Rightarrow> if fst u < fst t then Some u else Some t)"

text \<open>
  What can happen to the game: a call of its public surface (the buttons, the settings
  controls), time passing, and the next timer firing. \<open>Wait ms\<close> lets time pass up to the
  moment the next timer is due; \<open>Fire\<close> runs the callback of the timer that is due first,
  at its due time.
\<close>

datatype event =
  Start | Click jsval | Replay | TogglePause | SetDifficulty string | SetSpeed int
| Wait nat | Fire

definition step :: "env \<Rightarrow> game \<Rightarrow> event \<Rightarrow> result" where
  "step e s ev =
     (case ev of
        Start \<Rightarrow> startGame e s
      | Click color \<Rightarrow> handleColorClick e s color
      | Replay \<Rightarrow> Returned (replaySequence s)
      | TogglePause \<Rightarrow> togglePause e s
      | SetDifficulty d \<Rightarrow> setDifficulty d s
      | SetSpeed v \<Rightarrow> setSpeed e v s
      | Wait ms \<Rightarrow>
          (case nextTimer (timers s) of
             None \<Rightarrow> Returned (s\<lparr>clock := clock s + ms\<rparr>)
           | Some (due, cb) \<Rightarrow> Returned (s\<lparr>clock := min (clock s + ms) (max due (clock s))\<rparr>))
      | Fire \<Rightarrow>
          (case nextTimer (timers s) of
             None \<Rightarrow> Returned s
           | Some (due, cb) \<Rightarrow>
               fireCallback e cb
                 (s\<lparr>timers := remove1 (due, cb) (timers s), clock := max due (clock s)\<rparr>)))"

text \<open>
  A run of events. An exception thrown by a handler is reported by the browser and the
  page goes on with the fields as they are; a handler that never returns ends the run.
\<close>

fun run :: "env \<Rightarrow> game \<Rightarrow> event list \<Rightarrow> game option" where
  "run e s [] = Some s"
| "run e s (ev # evs) =
     (case step e s ev of
        Returned s' \<Rightarrow> run e s' evs
      | Threw err s' \<Rightarrow> run e s' evs
      | Hangs \<Rightarrow> None)"

text \<open>
  A page with the four colour buttons and every element the constructor looks up, given
  the numbers \<open>Math.random\<close> returns; and two such sequences of numbers: always 0
  (every draw is red), 0, 1/4, 2/4, 3/4 in turn (red, blue, green, yellow in turn), and
  the same with every number returned twice in a row.
\<close>

definition fourButtons :: "jsval \<Rightarrow> lookup" where
  "fourButtons c = (if c \<in> set colors then Element else Null)"

definition page :: "(nat \<Rightarrow> real) \<Rightarrow> env" where
  "page rnd = \<lparr>querySelector = fourButtons, mathRandom = rnd, hasGameArea = True,
              hasBoard = True, hasPauseBtn = True, hasAccessibilityManager = True\<rparr>"

definition allZero :: "nat \<Rightarrow> real" where
  "allZero k = 0"

definition inTurn :: "nat \<Rightarrow> real" where
  "inTurn k = real (k mod 4) / 4"

definition eachTwice :: "nat \<Rightarrow> real" where
  "eachTwice k = real (k div 2 mod 4) / 4"

text \<open>
  The state of the second scenario of the specification: level 2, the sequence red, blue,
  and red already submitted.
\<close>

definition midTurn :: game where
  "midTurn =
     \<lparr>sequence = [Str ''red'', Str ''blue''], playerSequence = [Str ''red''], level = 2,
      score = 80, isPlaying = True, isShowingSequence = False, isPlayerTurn = True,
      isPaused = False, difficulty = ''medium'', speed = 3, timers = [], clock = 4400,
      draws = 2, gameOvers = []\<rparr>"

text \<open>An easy game right after \<open>startGame\<close>, the first draw being red.\<close>

definition easyStart :: game where
  "easyStart =
     \<lparr>sequence = [Str ''red''], playerSequence = [], level = 1, score = 0, isPlaying = True,
      isShowingSequence = True, isPlayerTurn = False, isPaused = False, difficulty = ''easy'',
      speed = 3, timers = [(800, ShowNext 800 0)], clock = 0, draws = 1, gameOvers = []\<rparr>"




section \<open>Properties\<close>

subsection \<open>Sample states\<close>

text \<open>
  \<open>midTurn\<close> is what the game reaches on the four-button page at speed 3 when the first
  level is played correctly and the first colour of the second level is submitted.
\<close>

lemma midTurn_reached:
  "run (page inTurn) (newGame ''medium'' 3)
     [Start, Fire, Click (Str ''red''), Fire, Fire, Fire, Click (Str ''red'')] = Some midTurn"
  by code_simp

lemma levelTwo_reached:
  "run (page inTurn) (newGame ''medium'' 3) [Start, Fire, Click (Str ''red''), Fire, Fire, Fire] =
     Some (midTurn\<lparr>playerSequence := [], score := 60\<rparr>)"
  by code_simp


lemma inTurn_range: "0 \<le> inTurn k \<and> inTurn k < 1"
proof -
  have "k mod 4 < 4" by simp
  then have "real (k mod 4) < 4" by (simp only: of_nat_less_iff [symmetric, where 'a = real] of_nat_numeral)
  then show ?thesis by (simp add: inTurn_def)
qed

lemma eachTwice_range: "0 \<le> eachTwice k \<and> eachTwice k < 1"
proof -
  have "k div 2 mod 4 < 4" by simp
  then have "real (k div 2 mod 4) < 4" by (simp only: of_nat_less_iff [symmetric, where 'a = real] of_nat_numeral)
  then show ?thesis by (simp add: eachTwice_def)
qed

lemma easyStart_reached:
  "run (page eachTwice) (newGame ''easy'' 3) [Start] = Some easyStart"
  by code_simp

subsection \<open>Reading arrays and drawing colours\<close>

lemma js_index_nat: "js_index sq (int n) = (if n < length sq then sq ! n else Undefined)"
  by (simp add: js_index_def)

lemma js_index_last: "sq \<noteq> [] \<Longrightarrow> js_index sq (int (length sq) - 1) = last sq"
proof -
  assume ne: "sq \<noteq> []"
  then have "int (length sq) - 1 = int (length sq - 1)" by (cases sq) simp_all
  then have "js_index sq (int (length sq) - 1) = js_index sq (int (length sq - 1))" by (rule arg_cong)
  also have "\<dots> = sq ! (length sq - 1)" using ne by (simp only: js_index_nat) simp
  also have "\<dots> = last sq" using ne by (rule last_conv_nth [symmetric])
  finally show ?thesis .
qed

lemma js_index_in: "js_index xs i \<in> insert Undefined (set xs)"
proof (cases "0 \<le> i \<and> i < int (length xs)")
  case True
  then have "nat i < length xs" by linarith
  then have "xs ! nat i \<in> set xs" by (rule nth_mem)
  with True show ?thesis by (simp add: js_index_def)
next
  case False
  then have "js_index xs i = Undefined" unfolding js_index_def by (rule if_not_P)
  then show ?thesis by simp
qed

lemma randomColor_in_range:
  assumes "0 \<le> mathRandom e k" and "mathRandom e k < 1" and "cs \<noteq> []"
  shows "randomColor e cs k \<in> set cs"
proof -
  let ?i = "\<lfloor>mathRandom e k * real (length cs)\<rfloor>"
  from assms(1) have "0 \<le> mathRandom e k * real (length cs)" by simp
  then have lo: "0 \<le> ?i" by simp
  from assms(3) have "0 < real (length cs)" by simp
  with assms(2) have "mathRandom e k * real (length cs) < 1 * real (length cs)"
    by (rule mult_strict_right_mono)
  then have "mathRandom e k * real (length cs) < of_int (int (length cs))" by simp
  then have hi: "?i < int (length cs)" by (simp only: floor_less_iff)
  from lo hi have "nat ?i < length cs" by linarith
  then have "cs ! nat ?i \<in> set cs" by (rule nth_mem)
  with lo hi show ?thesis by (simp add: randomColor_def js_index_def)
qed

lemma easyDraw_step:
  "easyDraw e sq k =
     (if sq \<noteq> [] \<and> randomColor e colors k = last sq then easyDraw e sq (Suc k)
      else Some (randomColor e colors k, Suc k))"
  by (subst easyDraw.simps) (cases "sq = []"; simp add: js_index_last)

lemma easyDraw_empty: "easyDraw e [] k = Some (randomColor e colors k, Suc k)"
  by (subst easyDraw_step) simp

lemma easyDraw_result:
  assumes "easyDraw e sq k = Some r"
  shows "\<exists>j\<ge>k. r = (randomColor e colors j, Suc j) \<and> (sq = [] \<or> randomColor e colors j \<noteq> last sq)"
  using assms
proof (induction e sq k r rule: easyDraw.raw_induct [rotated 1, consumes 1])
  case (1 easyDraw' e sq k r)
  show ?case
  proof (cases "0 < length sq \<and> randomColor e colors k = js_index sq (int (length sq) - 1)")
    case True
    with 1(2) have "easyDraw' e sq (Suc k) = Some r" by simp
    from 1(1)[OF this] obtain j where j: "Suc k \<le> j" "r = (randomColor e colors j, Suc j)"
        "sq = [] \<or> randomColor e colors j \<noteq> last sq" by blast
    from j(1) have "k \<le> j" by simp
    with j(2,3) show ?thesis by blast
  next
    case False
    with 1(2) have "Some (randomColor e colors k, Suc k) = Some r" by (simp only: if_False)
    then have r: "r = (randomColor e colors k, Suc k)" by simp
    have "sq = [] \<or> randomColor e colors k \<noteq> last sq"
    proof (cases "sq = []")
      case True
      then show ?thesis by simp
    next
      case ne: False
      with False have "randomColor e colors k \<noteq> js_index sq (int (length sq) - 1)" by simp
      with js_index_last [OF ne] show ?thesis by simp
    qed
    with r show ?thesis by blast
  qed
qed

lemma easyDraw_returns:
  "randomColor e colors (k + n) \<noteq> last sq \<Longrightarrow> \<exists>r. easyDraw e sq k = Some r"
proof (induction n arbitrary: k)
  case 0
  then show ?case by (subst easyDraw_step) simp
next
  case (Suc n)
  from Suc.prems have "randomColor e colors (Suc k + n) \<noteq> last sq" by simp
  from Suc.IH[OF this] obtain r where "easyDraw e sq (Suc k) = Some r" ..
  then show ?case by (subst easyDraw_step) simp
qed

lemma chooseColor_empty:
  "sequence s = [] \<Longrightarrow> chooseColor e s = Some (randomColor e colors (draws s), Suc (draws s))"
  by (simp add: chooseColor_def easyDraw_empty getAdaptiveColor_def getRecentErrorRate_def)

lemma chooseColor_not_easy:
  "difficulty s \<noteq> ''easy'' \<Longrightarrow>
   chooseColor e s = Some (randomColor e colors (draws s), Suc (draws s))"
  by (simp add: chooseColor_def getAdaptiveColor_def getRecentErrorRate_def)

lemma chooseColor_drawn:
  assumes "chooseColor e s = Some (c, k)"
  shows "c \<in> insert Undefined (set colors)"
proof (cases "difficulty s = ''easy''")
  case True
  with assms have "easyDraw e (sequence s) (draws s) = Some (c, k)" by (simp add: chooseColor_def)
  from easyDraw_result [OF this] obtain j where "c = randomColor e colors j" by auto
  then show ?thesis unfolding randomColor_def by (simp only: js_index_in)
next
  case False
  with assms have "c = randomColor e colors (draws s)" by (simp add: chooseColor_not_easy)
  then show ?thesis unfolding randomColor_def by (simp only: js_index_in)
qed

lemma chooseColor_easy_differs:
  assumes "chooseColor e s = Some (c, k)" and "difficulty s = ''easy''"
  shows "sequence s = [] \<or> c \<noteq> last (sequence s)"
proof -
  from assms have "easyDraw e (sequence s) (draws s) = Some (c, k)" by (simp add: chooseColor_def)
  from easyDraw_result [OF this] show ?thesis by auto
qed

lemma addToSequence_easy:
  "difficulty s = ''easy'' \<Longrightarrow>
   addToSequence e s =
     (case easyDraw e (sequence s) (draws s) of
        None \<Rightarrow> None
      | Some (c, k) \<Rightarrow> Some (s\<lparr>sequence := sequence s @ [c], draws := k\<rparr>))"
  by (simp add: addToSequence_def chooseColor_def)

subsection \<open>Submissions in the player's turn\<close>

text \<open>
  What \<open>handleColorClick\<close> does past its guard when the page has a button for the
  colour: the colour is compared with the element of the sequence at the position it
  takes in the player sequence.
\<close>

lemma click_in_turn:
  assumes "isPlayerTurn s" and "\<not> isPaused s" and "querySelector e c = Element"
  shows "handleColorClick e s c =
     (if c = js_index (sequence s) (int (length (playerSequence s))) then
        (if Suc (length (playerSequence s)) = length (sequence s)
         then Returned (handleSequenceComplete (handleCorrectColor (s\<lparr>playerSequence := playerSequence s @ [c]\<rparr>)))
         else Returned (handleCorrectColor (s\<lparr>playerSequence := playerSequence s @ [c]\<rparr>)))
      else Returned (handleIncorrectColor (s\<lparr>playerSequence := playerSequence s @ [c]\<rparr>)))"
  using assms by (simp add: handleColorClick_def handleCorrectColor_def Let_def)

lemma correct_step:
  assumes "isPlayerTurn s" and "\<not> isPaused s" and "querySelector e c = Element"
    and "c = js_index (sequence s) (int (length (playerSequence s)))"
    and "Suc (length (playerSequence s)) \<noteq> length (sequence s)"
  shows "handleColorClick e s c =
           Returned (s\<lparr>playerSequence := playerSequence s @ [c], score := score s + 10 * level s\<rparr>)"
  using assms by (simp add: click_in_turn handleCorrectColor_def)

lemma correct_final:
  assumes "isPlayerTurn s" and "\<not> isPaused s" and "querySelector e c = Element"
    and "c = js_index (sequence s) (int (length (playerSequence s)))"
    and "Suc (length (playerSequence s)) = length (sequence s)"
  shows "handleColorClick e s c =
           Returned (s\<lparr>playerSequence := playerSequence s @ [c], isPlayerTurn := False,
                       score := score s + 10 * level s + level s * 50,
                       timers := timers s @ [(clock s + 2000, LevelUp)]\<rparr>)"
  using assms by (simp add: click_in_turn handleCorrectColor_def handleSequenceComplete_def schedule_def)


lemma handleColorClick_frame:
  assumes "handleColorClick e s c = Returned s' \<or> handleColorClick e s c = Threw err s'"
  shows "sequence s' = sequence s \<and> isPlaying s' = isPlaying s \<and> difficulty s' = difficulty s"
  using assms
  by (auto simp: handleColorClick_def handleCorrectColor_def handleSequenceComplete_def
      handleIncorrectColor_def schedule_def Let_def split: if_splits lookup.splits)

subsection \<open>Runs of events\<close>

text \<open>
  What one event can do to the sequence, to \<open>isPlaying\<close> and to the difficulty, and what
  therefore holds in every state a new game can reach: the sequence holds only colours
  read from the four (or \<open>undefined\<close>, should \<open>Math.random\<close> leave its range); on a page
  with the game area and the board, a playing game has a sequence that is not empty; under
  the easy difficulty, never changed, no two neighbours of the sequence are equal.
\<close>

lemma run_append:
  "run e s (xs @ ys) = (case run e s xs of None \<Rightarrow> None | Some s' \<Rightarrow> run e s' ys)"
  by (induction xs arbitrary: s) (simp_all split: result.splits)

lemma run_invariant:
  assumes "run e s evs = Some s'" and "P s" and "\<forall>ev\<in>set evs. Q ev"
    and "\<And>s ev s'. P s \<Longrightarrow> Q ev \<Longrightarrow> step e s ev = Returned s' \<Longrightarrow> P s'"
    and "\<And>s ev err s'. P s \<Longrightarrow> Q ev \<Longrightarrow> step e s ev = Threw err s' \<Longrightarrow> P s'"
  shows "P s'"
  using assms(1,2,3)
proof (induction evs arbitrary: s)
  case Nil
  then show ?case by simp
next
  case (Cons ev evs)
  from Cons.prems(3) have q: "Q ev" and qs: "\<forall>ev\<in>set evs. Q ev" by simp_all
  show ?case
  proof (cases "step e s ev")
    case (Returned s1)
    with Cons.prems(1) have "run e s1 evs = Some s'" by simp
    moreover from Cons.prems(2) q Returned have "P s1" by (rule assms(4))
    ultimately show ?thesis using qs by (rule Cons.IH)
  next
    case (Threw err s1)
    with Cons.prems(1) have "run e s1 evs = Some s'" by simp
    moreover from Cons.prems(2) q Threw have "P s1" by (rule assms(5))
    ultimately show ?thesis using qs by (rule Cons.IH)
  next
    case Hangs
    with Cons.prems(1) show ?thesis by simp
  qed
qed

lemma showSequence_sequence [simp]: "sequence (showSequence s) = sequence s"
  by (simp add: showSequence_def showLoop_def schedule_def startPlayerTurn_def)

lemma showSequence_isPlaying [simp]: "isPlaying (showSequence s) = isPlaying s"
  by (simp add: showSequence_def showLoop_def schedule_def startPlayerTurn_def)

lemma showSequence_difficulty [simp]: "difficulty (showSequence s) = difficulty s"
  by (simp add: showSequence_def showLoop_def schedule_def startPlayerTurn_def)

lemma nextLevel_effect:
  assumes "nextLevel e s = Some s'"
  shows "\<exists>c. c \<in> insert Undefined (set colors) \<and> sequence s' = sequence s @ [c] \<and>
           (difficulty s = ''easy'' \<longrightarrow> sequence s = [] \<or> c \<noteq> last (sequence s)) \<and>
           isPlaying s' = isPlaying s \<and> difficulty s' = difficulty s"
proof -
  from assms obtain c k where ch: "chooseColor e (s\<lparr>playerSequence := []\<rparr>) = Some (c, k)"
    and s': "s' = showSequence (s\<lparr>playerSequence := [], sequence := sequence s @ [c], draws := k\<rparr>)"
    by (auto simp: nextLevel_def addToSequence_def split: option.splits)
  from chooseColor_drawn [OF ch] have "c \<in> insert Undefined (set colors)" .
  moreover from chooseColor_easy_differs [OF ch]
  have "difficulty s = ''easy'' \<longrightarrow> sequence s = [] \<or> c \<noteq> last (sequence s)" by simp
  ultimately show ?thesis using s' by simp
qed

lemma startGame_effect:
  assumes "startGame e s = Returned s' \<or> startGame e s = Threw err s'"
  shows "difficulty s' = difficulty s \<and> isPlaying s' \<and>
         ((\<exists>c. c \<in> insert Undefined (set colors) \<and> sequence s' = [c]) \<or>
          sequence s' = [] \<and> \<not> (hasGameArea e \<and> hasBoard e))"
proof (cases "hasGameArea e \<and> hasBoard e")
  case False
  with assms show ?thesis by (auto simp: startGame_def resetGame_def Let_def split: if_splits)
next
  case True
  let ?s1 = "(resetGame s)\<lparr>isPlaying := True\<rparr>"
  from True assms have "nextLevel e ?s1 = Some s'"
    by (auto simp: startGame_def Let_def split: option.splits)
  from nextLevel_effect [OF this] show ?thesis by (auto simp: resetGame_def)
qed

lemma fireCallback_effect:
  assumes "fireCallback e cb s = Returned s' \<or> fireCallback e cb s = Threw err s'"
  shows "difficulty s' = difficulty s \<and> (isPlaying s' \<longrightarrow> isPlaying s) \<and>
         (sequence s' = sequence s \<or>
          (\<exists>c. c \<in> insert Undefined (set colors) \<and> sequence s' = sequence s @ [c] \<and>
             (difficulty s = ''easy'' \<longrightarrow> sequence s = [] \<or> c \<noteq> last (sequence s))))"
proof (cases cb)
  case EndGame
  with assms show ?thesis by (auto simp: fireCallback_def endGame_def)
next
  case LevelUp
  with assms have "nextLevel e (s\<lparr>level := level s + 1\<rparr>) = Some s'"
    by (auto simp: fireCallback_def split: option.splits)
  from nextLevel_effect [OF this] show ?thesis by auto
next
  case (ShowNext iv i)
  with assms show ?thesis
    by (auto simp: fireCallback_def showLoop_def schedule_def startPlayerTurn_def split: if_splits)
qed

lemma replaySequence_frame:
  "sequence (replaySequence s) = sequence s \<and> isPlaying (replaySequence s) = isPlaying s \<and>
   difficulty (replaySequence s) = difficulty s"
  by (simp add: replaySequence_def)

lemma step_effect:
  assumes "step e s ev = Returned s' \<or> step e s ev = Threw err s'"
  shows "(difficulty s' = difficulty s \<or> (\<exists>d. ev = SetDifficulty d)) \<and>
         (sequence s' = sequence s \<and> (isPlaying s' \<longrightarrow> isPlaying s) \<or>
          (\<exists>c. c \<in> insert Undefined (set colors) \<and> sequence s' = sequence s @ [c] \<and>
             (difficulty s = ''easy'' \<longrightarrow> sequence s = [] \<or> c \<noteq> last (sequence s)) \<and>
             (isPlaying s' \<longrightarrow> isPlaying s)) \<or>
          (\<exists>c. c \<in> insert Undefined (set colors) \<and> sequence s' = [c]) \<or>
          sequence s' = [] \<and> \<not> (hasGameArea e \<and> hasBoard e))"
proof (cases ev)
  case Start
  with assms startGame_effect [of e s s' err] show ?thesis by (auto simp: step_def)
next
  case (Click c)
  with assms handleColorClick_frame [of e s c s' err] show ?thesis by (auto simp: step_def)
next
  case Replay
  with assms replaySequence_frame [of s] show ?thesis by (auto simp: step_def)
next
  case TogglePause
  with assms show ?thesis by (auto simp: step_def togglePause_def Let_def split: if_splits)
next
  case (SetDifficulty d)
  with assms show ?thesis by (auto simp: step_def setDifficulty_def Let_def split: if_splits)
next
  case (SetSpeed v)
  with assms show ?thesis by (auto simp: step_def setSpeed_def Let_def split: if_splits)
next
  case (Wait ms)
  with assms show ?thesis by (auto simp: step_def split: option.splits)
next
  case Fire
  show ?thesis
  proof (cases "nextTimer (timers s)")
    case None
    with Fire assms show ?thesis by (auto simp: step_def)
  next
    case (Some t)
    obtain due cb where t: "t = (due, cb)" by (cases t)
    let ?s0 = "s\<lparr>timers := remove1 (due, cb) (timers s), clock := max due (clock s)\<rparr>"
    from Fire Some t assms
    have "fireCallback e cb ?s0 = Returned s' \<or> fireCallback e cb ?s0 = Threw err s'"
      by (simp add: step_def)
    from fireCallback_effect [OF this] show ?thesis by auto
  qed
qed

lemma reachable_sequence_drawn:
  assumes "run e (newGame d v) evs = Some s"
  shows "set (sequence s) \<subseteq> insert Undefined (set colors)"
proof (rule run_invariant [where P = "\<lambda>s. set (sequence s) \<subseteq> insert Undefined (set colors)"
      and Q = "\<lambda>ev. True", OF assms])
  show "set (sequence (newGame d v)) \<subseteq> insert Undefined (set colors)" by (simp add: newGame_def)
  show "\<forall>ev\<in>set evs. True" by simp
next
  fix s ev s'
  assume "set (sequence s) \<subseteq> insert Undefined (set colors)" and "step e s ev = Returned s'"
  with step_effect [of e s ev s'] show "set (sequence s') \<subseteq> insert Undefined (set colors)"
    by auto
next
  fix s ev err s'
  assume "set (sequence s) \<subseteq> insert Undefined (set colors)" and "step e s ev = Threw err s'"
  with step_effect [of e s ev s' err] show "set (sequence s') \<subseteq> insert Undefined (set colors)"
    by auto
qed

lemma reachable_playing_has_sequence:
  assumes page: "hasGameArea e" "hasBoard e" and reach: "run e (newGame d v) evs = Some s"
    and "isPlaying s"
  shows "sequence s \<noteq> []"
proof -
  have "isPlaying s \<longrightarrow> sequence s \<noteq> []"
  proof (rule run_invariant [where P = "\<lambda>s. isPlaying s \<longrightarrow> sequence s \<noteq> []"
        and Q = "\<lambda>ev. True", OF reach])
    show "isPlaying (newGame d v) \<longrightarrow> sequence (newGame d v) \<noteq> []" by (simp add: newGame_def)
    show "\<forall>ev\<in>set evs. True" by simp
  next
    fix s ev s'
    assume "isPlaying s \<longrightarrow> sequence s \<noteq> []" and "step e s ev = Returned s'"
    with step_effect [of e s ev s'] page show "isPlaying s' \<longrightarrow> sequence s' \<noteq> []" by auto
  next
    fix s ev err s'
    assume "isPlaying s \<longrightarrow> sequence s \<noteq> []" and "step e s ev = Threw err s'"
    with step_effect [of e s ev s' err] page show "isPlaying s' \<longrightarrow> sequence s' \<noteq> []" by auto
  qed
  with assms(4) show ?thesis by simp
qed

lemma reachable_easy_distinct:
  assumes reach: "run e (newGame ''easy'' v) evs = Some s"
    and fixed: "\<forall>ev\<in>set evs. \<forall>d. ev \<noteq> SetDifficulty d"
  shows "distinct_adj (sequence s)"
proof -
  let ?P = "\<lambda>s. difficulty s = ''easy'' \<and> distinct_adj (sequence s)"
  have "?P s"
  proof (rule run_invariant [where P = ?P and Q = "\<lambda>ev. \<forall>d. ev \<noteq> SetDifficulty d", OF reach _ fixed])
    show "?P (newGame ''easy'' v)" by (simp add: newGame_def)
  next
    fix s ev s'
    assume "?P s" and "\<forall>d. ev \<noteq> SetDifficulty d" and "step e s ev = Returned s'"
    with step_effect [of e s ev s'] show "?P s'" by (auto simp: distinct_adj_append_iff)
  next
    fix s ev err s'
    assume "?P s" and "\<forall>d. ev \<noteq> SetDifficulty d" and "step e s ev = Threw err s'"
    with step_effect [of e s ev s' err] show "?P s'" by (auto simp: distinct_adj_append_iff)
  qed
  then show ?thesis by simp
qed

lemma play_rest:
  assumes "isPlayerTurn s" and "\<not> isPaused s"
    and "sequence s = playerSequence s @ rest" and "rest \<noteq> []"
    and "\<forall>c\<in>set rest. querySelector e c = Element"
  shows "\<exists>s'. run e s (map Click rest) = Some s' \<and>
           score s' = score s + 10 * level s * int (length rest) + 50 * level s \<and>
           level s' = level s \<and> sequence s' = sequence s \<and> playerSequence s' = sequence s \<and>
           \<not> isPlayerTurn s' \<and> timers s' = timers s @ [(clock s + 2000, LevelUp)]"
  using assms
proof (induction rest arbitrary: s)
  case Nil
  then show ?case by simp
next
  case (Cons c rest)
  from Cons.prems(3) have exp: "c = js_index (sequence s) (int (length (playerSequence s)))"
    by (simp add: js_index_nat nth_append)
  from Cons.prems(5) have el: "querySelector e c = Element" by simp
  show ?case
  proof (cases "rest = []")
    case True
    with Cons.prems(3) have "Suc (length (playerSequence s)) = length (sequence s)" by simp
    from correct_final [OF Cons.prems(1,2) el exp this] Cons.prems(3) True
    show ?thesis by (simp add: step_def)
  next
    case False
    with Cons.prems(3) have "Suc (length (playerSequence s)) \<noteq> length (sequence s)" by simp
    note st = correct_step [OF Cons.prems(1,2) el exp this]
    let ?s1 = "s\<lparr>playerSequence := playerSequence s @ [c], score := score s + 10 * level s\<rparr>"
    have "\<exists>s'. run e ?s1 (map Click rest) = Some s' \<and>
           score s' = score ?s1 + 10 * level ?s1 * int (length rest) + 50 * level ?s1 \<and>
           level s' = level ?s1 \<and> sequence s' = sequence ?s1 \<and> playerSequence s' = sequence ?s1 \<and>
           \<not> isPlayerTurn s' \<and> timers s' = timers ?s1 @ [(clock ?s1 + 2000, LevelUp)]"
      using Cons.prems False by (intro Cons.IH) simp_all
    then obtain s' where s': "run e ?s1 (map Click rest) = Some s'"
      "score s' = score s + 10 * level s + 10 * level s * int (length rest) + 50 * level s"
      "level s' = level s" "sequence s' = sequence s" "playerSequence s' = sequence s"
      "\<not> isPlayerTurn s'" "timers s' = timers s @ [(clock s + 2000, LevelUp)]"
      by auto
    from st s'(1) have "run e s (map Click (c # rest)) = Some s'" by (simp add: step_def)
    moreover from s'(2) have "score s' = score s + 10 * level s * int (length (c # rest)) + 50 * level s"
      by (simp add: algebra_simps)
    ultimately show ?thesis using s'(3-7) by blast
  qed
qed

lemma nextTimer_single: "nextTimer [t] = Some t"
  by simp

lemma fresh_level1:
  assumes "hasGameArea e" and "hasBoard e"
    and "querySelector e (randomColor e colors 0) = Element"
  shows "run e (newGame d v) [Start, Fire, Click (randomColor e colors 0)] =
     Some \<lparr>sequence = [randomColor e colors 0], playerSequence = [randomColor e colors 0],
           level = 1, score = 60, isPlaying = True, isShowingSequence = False,
           isPlayerTurn = False, isPaused = False, difficulty = d, speed = v,
           timers = [(speedInterval v + 2000, LevelUp)], clock = speedInterval v, draws = 1,
           gameOvers = []\<rparr>"
  using assms
  by (simp add: step_def startGame_def nextLevel_def addToSequence_def chooseColor_empty
      newGame_def resetGame_def showSequence_def showLoop_def schedule_def fireCallback_def
      startPlayerTurn_def handleColorClick_def js_index_def handleCorrectColor_def
      handleSequenceComplete_def)

lemma fresh_level2:
  assumes "hasGameArea e" and "hasBoard e"
    and "querySelector e (randomColor e colors 0) = Element"
    and "querySelector e (randomColor e colors 1) = Element"
    and "d \<noteq> ''easy''"
  shows "\<exists>s. run e (newGame d v)
             [Start, Fire, Click (randomColor e colors 0), Fire, Fire, Fire,
              Click (randomColor e colors 0), Click (randomColor e colors 1)] = Some s \<and>
           score s = 200 \<and> level s = 2 \<and>
           sequence s = [randomColor e colors 0, randomColor e colors 1]"
  using assms
  by (simp add: step_def startGame_def nextLevel_def addToSequence_def chooseColor_empty
      chooseColor_not_easy
      newGame_def resetGame_def showSequence_def showLoop_def schedule_def fireCallback_def
      startPlayerTurn_def handleColorClick_def js_index_def handleCorrectColor_def
      handleSequenceComplete_def)

text \<open>
  The presentation: one timer per element of the sequence, then the player's turn.
\<close>

lemma showLoop_fire:
  assumes "isPlaying s" and "\<not> isPaused s"
    and "timers s = [(clock s + iv, ShowNext iv i)]"
  shows "step e s Fire =
     Returned (if Suc i < length (sequence s)
       then s\<lparr>timers := [(clock s + iv + iv, ShowNext iv (Suc i))], clock := clock s + iv\<rparr>
       else s\<lparr>timers := [], clock := clock s + iv, isShowingSequence := False, isPlayerTurn := True\<rparr>)"
  using assms
  by (simp add: step_def fireCallback_def showLoop_def schedule_def startPlayerTurn_def)

lemma presentation_runs:
  assumes "isPlaying s" and "\<not> isPaused s"
    and "timers s = [(clock s + iv, ShowNext iv i)]"
    and "i + n = length (sequence s)" and "0 < n"
  shows "run e s (replicate n Fire) =
     Some (s\<lparr>timers := [], clock := clock s + n * iv, isShowingSequence := False,
             isPlayerTurn := True\<rparr>)"
  using assms
proof (induction n arbitrary: s i)
  case 0
  then show ?case by simp
next
  case (Suc n)
  note st = showLoop_fire [OF Suc.prems(1,2,3), of e]
  show ?case
  proof (cases "n = 0")
    case True
    with Suc.prems(4) have "\<not> Suc i < length (sequence s)" by simp
    with st True show ?thesis by simp
  next
    case False
    with Suc.prems(4) have lt: "Suc i < length (sequence s)" by simp
    let ?s1 = "s\<lparr>timers := [(clock s + iv + iv, ShowNext iv (Suc i))], clock := clock s + iv\<rparr>"
    from st lt have s1: "step e s Fire = Returned ?s1" by simp
    have "run e ?s1 (replicate n Fire) =
       Some (?s1\<lparr>timers := [], clock := clock ?s1 + n * iv, isShowingSequence := False,
             isPlayerTurn := True\<rparr>)"
      using Suc.prems False by (intro Suc.IH [where i = "Suc i"]) simp_all
    with s1 show ?thesis by (simp add: algebra_simps)
  qed
qed

lemma chooseColor_in_colors:
  assumes "\<forall>k. 0 \<le> mathRandom e k \<and> mathRandom e k < 1" and "chooseColor e s = Some (c, k)"
  shows "c \<in> set colors"
proof -
  have ne: "colors \<noteq> []" by (simp add: colors_def)
  have "\<exists>j. c = randomColor e colors j"
  proof (cases "difficulty s = ''easy''")
    case True
    with assms(2) have "easyDraw e (sequence s) (draws s) = Some (c, k)" by (simp add: chooseColor_def)
    from easyDraw_result [OF this] show ?thesis by auto
  next
    case False
    with assms(2) show ?thesis by (auto simp: chooseColor_not_easy)
  qed
  then obtain j where "c = randomColor e colors j" ..
  with assms(1) ne show ?thesis by (simp add: randomColor_in_range)
qed

lemma nextLevel_state:
  "nextLevel e s =
     (case chooseColor e (s\<lparr>playerSequence := []\<rparr>) of
        None \<Rightarrow> None
      | Some (c, k) \<Rightarrow>
          Some (showSequence (s\<lparr>playerSequence := [], sequence := sequence s @ [c], draws := k\<rparr>)))"
  by (simp add: nextLevel_def addToSequence_def split: option.splits)

lemma chooseColor_returns:
  assumes "difficulty s \<noteq> ''easy'' \<or> sequence s = [] \<or>
           (\<exists>n. randomColor e colors (draws s + n) \<noteq> last (sequence s))"
  shows "\<exists>r. chooseColor e s = Some r"
proof (cases "difficulty s = ''easy''")
  case False
  then show ?thesis by (simp add: chooseColor_not_easy)
next
  case True
  show ?thesis
  proof (cases "sequence s = []")
    case True
    then show ?thesis by (simp add: chooseColor_empty)
  next
    case False
    with assms \<open>difficulty s = ''easy''\<close>
    obtain n where "randomColor e colors (draws s + n) \<noteq> last (sequence s)" by blast
    from easyDraw_returns [OF this] \<open>difficulty s = ''easy''\<close> show ?thesis
      by (simp add: chooseColor_def)
  qed
qed

text \<open>The state in which the second level of a fresh game is chosen.\<close>

lemma fresh_level2_turn:
  assumes page: "hasGameArea e" "hasBoard e"
    and el: "querySelector e (randomColor e colors 0) = Element"
  shows "run e (newGame d v)
           [Start, Fire, Click (randomColor e colors 0), Fire, Fire, Fire] =
     (case chooseColor e ((newGame d v)\<lparr>sequence := [randomColor e colors 0], draws := 1\<rparr>) of
        None \<Rightarrow> None
      | Some (c, k) \<Rightarrow>
          Some \<lparr>sequence = [randomColor e colors 0, c], playerSequence = [],
             level = 2, score = 60, isPlaying = True, isShowingSequence = False,
             isPlayerTurn = True, isPaused = False, difficulty = d, speed = v,
             timers = [], clock = speedInterval v + 2000 + 2 * speedInterval v, draws = k,
             gameOvers = []\<rparr>)"
proof -
  let ?c1 = "randomColor e colors 0"
  let ?iv = "speedInterval v"
  let ?L1 = "\<lparr>sequence = [?c1], playerSequence = [?c1],
           level = 1, score = 60, isPlaying = True, isShowingSequence = False,
           isPlayerTurn = False, isPaused = False, difficulty = d, speed = v,
           timers = [(?iv + 2000, LevelUp)], clock = ?iv, draws = 1,
           gameOvers = []\<rparr>"
  let ?X = "(newGame d v)\<lparr>sequence := [?c1], draws := 1\<rparr>"
  have ch: "chooseColor e (?L1\<lparr>timers := [], clock := ?iv + 2000, level := 2, playerSequence := []\<rparr>) =
      chooseColor e ?X"
    by (simp add: chooseColor_def getAdaptiveColor_def newGame_def)
  have split: "[Start, Fire, Click ?c1, Fire, Fire, Fire] = [Start, Fire, Click ?c1] @ Fire # replicate 2 Fire"
    by (simp add: numeral_2_eq_2)
  show ?thesis
  proof (cases "chooseColor e ?X")
    case None
    with ch have "step e ?L1 Fire = Hangs"
      by (simp add: step_def fireCallback_def nextLevel_state)
    with None show ?thesis
      unfolding split run_append fresh_level1 [OF page el] by simp
  next
    case (Some r)
    obtain c k where r: "r = (c, k)" by (cases r)
    let ?S = "\<lparr>sequence = [?c1, c], playerSequence = [],
           level = 2, score = 60, isPlaying = True, isShowingSequence = True,
           isPlayerTurn = False, isPaused = False, difficulty = d, speed = v,
           timers = [(?iv + 2000 + ?iv, ShowNext ?iv 0)], clock = ?iv + 2000, draws = k,
           gameOvers = []\<rparr>"
    from Some r ch have st: "step e ?L1 Fire = Returned ?S"
      by (simp add: step_def fireCallback_def nextLevel_state showSequence_def showLoop_def
          schedule_def)
    have "run e ?S (replicate 2 Fire) =
       Some (?S\<lparr>timers := [], clock := clock ?S + 2 * ?iv, isShowingSequence := False,
             isPlayerTurn := True\<rparr>)"
      by (rule presentation_runs [where i = 0]) simp_all
    with st have "run e ?L1 (Fire # replicate 2 Fire) =
       Some (?S\<lparr>timers := [], clock := clock ?S + 2 * ?iv, isShowingSequence := False,
             isPlayerTurn := True\<rparr>)"
      by (simp del: replicate.simps replicate_Suc)
    with Some r show ?thesis
      unfolding split run_append fresh_level1 [OF page el] by simp
  qed
qed

subsection \<open>Submissions outside the player's turn\<close>

text \<open>
  C8: outside the player's turn, or while paused, a submitted colour changes nothing,
  whatever the colour: \<open>handleColorClick\<close> returns at its first line.
\<close>

theorem submit_ignored_outside_turn:
  "\<not> isPlayerTurn s \<or> isPaused s \<Longrightarrow> handleColorClick e s c = Returned s"
  by (simp add: handleColorClick_def)

text \<open>Paused in the middle of level 2, the expected colour blue is ignored too.\<close>

theorem submit_ignored_outside_turn_witness:
  "isPaused (midTurn\<lparr>isPaused := True\<rparr>) \<and>
   handleColorClick (page inTurn) (midTurn\<lparr>isPaused := True\<rparr>) (Str ''blue'') =
     Returned (midTurn\<lparr>isPaused := True\<rparr>)"
  using submit_ignored_outside_turn [of "midTurn\<lparr>isPaused := True\<rparr>" "page inTurn" "Str ''blue''"]
  by simp

subsection \<open>Ending the game\<close>

text \<open>
  C10: \<open>endGame\<close> writes the two flags \<open>isPlaying\<close> and \<open>isPlayerTurn\<close> and announces the
  score; every other field is as before, so score, level, sequence and player sequence are
  unchanged, and \<open>getCurrentStats\<close> afterwards reports the level, the full sequence and
  the very score that was announced.
\<close>

theorem endGame_frame:
  "(endGame s)\<lparr>isPlaying := isPlaying s, isPlayerTurn := isPlayerTurn s,
      gameOvers := gameOvers s\<rparr> = s \<and>
   \<not> isPlaying (endGame s) \<and> \<not> isPlayerTurn (endGame s) \<and>
   score (endGame s) = score s \<and> level (endGame s) = level s \<and>
   sequence (endGame s) = sequence s \<and> playerSequence (endGame s) = playerSequence s \<and>
   gameOvers (endGame s) = gameOvers s @ [score s] \<and>
   getCurrentStats (endGame s) =
     \<lparr>stats_level = level s, stats_score = score s, stats_sequence = sequence s,
      stats_isPlaying = False\<rparr>"
  by (simp add: endGame_def getCurrentStats_def)

subsection \<open>Choosing the next colour\<close>

text \<open>
  C7: \<open>getRecentErrorRate\<close> is the constant 0.3, which is neither above 0.5 nor below 0.2,
  so for every state the adaptive difficulty chooses as medium does: the colour at index
  \<open>floor (random * 4)\<close> of the four colours, whatever the sequence holds, with one random
  number used. \<open>addToSequence\<close> then appends the same colour under both.
\<close>

theorem adaptive_is_medium:
  "chooseColor e (s\<lparr>difficulty := ''adaptive''\<rparr>) = chooseColor e (s\<lparr>difficulty := ''medium''\<rparr>) \<and>
   chooseColor e (s\<lparr>difficulty := ''adaptive''\<rparr>) =
     Some (randomColor e colors (draws s), Suc (draws s)) \<and>
   map_option sequence (addToSequence e (s\<lparr>difficulty := ''adaptive''\<rparr>)) =
     map_option sequence (addToSequence e (s\<lparr>difficulty := ''medium''\<rparr>))"
  by (simp add: addToSequence_def chooseColor_def getAdaptiveColor_def getRecentErrorRate_def)

subsection \<open>The easy difficulty\<close>

text \<open>
  C6: under the easy difficulty, whenever \<open>addToSequence\<close> returns it has appended one
  colour, and that colour differs from the element that was last; a sequence without equal
  neighbours stays so. On an empty sequence the first draw is accepted. The loop returns
  as soon as some later random number gives a colour other than the last one (it runs for
  ever only when none does). Hence in every state that an easy game reaches while the
  difficulty is not changed, no two neighbours of the sequence are equal.
\<close>

theorem easy_no_immediate_repeat:
  assumes easy: "difficulty s = ''easy''"
  shows "(\<forall>s'. addToSequence e s = Some s' \<longrightarrow>
            (\<exists>c. sequence s' = sequence s @ [c] \<and> (sequence s = [] \<or> c \<noteq> last (sequence s))) \<and>
            (distinct_adj (sequence s) \<longrightarrow> distinct_adj (sequence s'))) \<and>
         (sequence s = [] \<longrightarrow>
            map_option sequence (addToSequence e s) = Some [randomColor e colors (draws s)]) \<and>
         (\<forall>n. randomColor e colors (draws s + n) \<noteq> last (sequence s) \<longrightarrow>
            (\<exists>s'. addToSequence e s = Some s')) \<and>
         (\<forall>v evs s1. run e (newGame ''easy'' v) evs = Some s1 \<and>
            (\<forall>ev\<in>set evs. \<forall>d. ev \<noteq> SetDifficulty d) \<longrightarrow> distinct_adj (sequence s1))"
proof (intro conjI allI impI)
  fix s'
  assume add: "addToSequence e s = Some s'"
  with easy obtain c k where d: "easyDraw e (sequence s) (draws s) = Some (c, k)"
    and s': "s' = s\<lparr>sequence := sequence s @ [c], draws := k\<rparr>"
    by (auto simp: addToSequence_easy split: option.splits)
  from easyDraw_result [OF d] have c: "sequence s = [] \<or> c \<noteq> last (sequence s)" by auto
  with s' show "\<exists>c. sequence s' = sequence s @ [c] \<and> (sequence s = [] \<or> c \<noteq> last (sequence s))"
    by simp
  assume "distinct_adj (sequence s)"
  with c s' show "distinct_adj (sequence s')"
    by (auto simp: distinct_adj_append_iff)
next
  assume "sequence s = []"
  with easy show "map_option sequence (addToSequence e s) = Some [randomColor e colors (draws s)]"
    by (simp add: addToSequence_easy easyDraw_empty)
next
  fix n
  assume "randomColor e colors (draws s + n) \<noteq> last (sequence s)"
  from easyDraw_returns [OF this] obtain r where "easyDraw e (sequence s) (draws s) = Some r" ..
  with easy show "\<exists>s'. addToSequence e s = Some s'"
    by (cases r) (simp add: addToSequence_easy)
next
  fix v evs s1
  assume "run e (newGame ''easy'' v) evs = Some s1 \<and>
            (\<forall>ev\<in>set evs. \<forall>d. ev \<noteq> SetDifficulty d)"
  then show "distinct_adj (sequence s1)" using reachable_easy_distinct by blast
qed

text \<open>
  After red, with the random numbers of \<open>eachTwice\<close>: the next draw is red again and is
  rejected, the one after is blue and is appended.
\<close>

lemma easy_second_level:
  "map_option sequence
     (run (page eachTwice) (newGame ''easy'' 3) [Start, Fire, Click (Str ''red''), Fire]) =
     Some [Str ''red'', Str ''blue'']"
  by code_simp

lemma easyStart_add:
  "addToSequence (page eachTwice) easyStart =
     Some (easyStart\<lparr>sequence := [Str ''red'', Str ''blue''], draws := 3\<rparr>)"
  by code_simp

theorem easy_no_immediate_repeat_witness:
  "difficulty easyStart = ''easy'' \<and>
   randomColor (page eachTwice) colors (draws easyStart) = last (sequence easyStart) \<and>
   randomColor (page eachTwice) colors (draws easyStart + 1) \<noteq> last (sequence easyStart) \<and>
   distinct_adj (sequence easyStart) \<and>
   (\<exists>s'. addToSequence (page eachTwice) easyStart = Some s' \<and>
      sequence s' = sequence easyStart @ [Str ''blue''] \<and>
      Str ''blue'' \<noteq> last (sequence easyStart) \<and> distinct_adj (sequence s')) \<and>
   (\<exists>s1. run (page eachTwice) (newGame ''easy'' 3) [Start, Fire, Click (Str ''red''), Fire] = Some s1 \<and>
      sequence s1 = [Str ''red'', Str ''blue''] \<and> distinct_adj (sequence s1))"
proof -
  have easy: "difficulty easyStart = ''easy''" by (simp add: easyStart_def)
  have r1: "randomColor (page eachTwice) colors (draws easyStart) = last (sequence easyStart)"
    by (simp add: randomColor_def page_def eachTwice_def easyStart_def colors_def js_index_def)
  have r2: "randomColor (page eachTwice) colors (draws easyStart + 1) \<noteq> last (sequence easyStart)"
    by (simp add: randomColor_def page_def eachTwice_def easyStart_def colors_def js_index_def)
  have d: "distinct_adj (sequence easyStart)" by (simp add: easyStart_def)
  note inst = easy_no_immediate_repeat [OF easy, of "page eachTwice"]
  from inst r2 obtain s' where s': "addToSequence (page eachTwice) easyStart = Some s'" by blast
  with inst d have d': "distinct_adj (sequence s')" by blast
  from s' easyStart_add have "sequence s' = sequence easyStart @ [Str ''blue'']"
    by (simp add: easyStart_def)
  moreover have "Str ''blue'' \<noteq> last (sequence easyStart)" by (simp add: easyStart_def)
  moreover from easy_second_level obtain s1
    where s1: "run (page eachTwice) (newGame ''easy'' 3) [Start, Fire, Click (Str ''red''), Fire] = Some s1"
      and q1: "sequence s1 = [Str ''red'', Str ''blue'']"
    by blast
  moreover have "\<forall>ev\<in>set [Start, Fire, Click (Str ''red''), Fire]. \<forall>d. ev \<noteq> SetDifficulty d"
    by simp
  with inst s1 have "distinct_adj (sequence s1)" by blast
  ultimately show ?thesis using easy r1 r2 d s' d' by blast
qed

subsection \<open>Starting a game\<close>

text \<open>
  C5: on a page that has the game area and the board, \<open>startGame\<close> returns normally from
  every prior state, a game in progress included, and leaves a sequence of exactly one
  colour, an empty player sequence, level 1 and score 0, with the game playing, not
  paused, and the presentation under way. Difficulty and speed are kept. (So are the
  timers that were pending: \<open>startGame\<close> cancels none and adds the one of the
  presentation.)
\<close>

theorem start_resets:
  assumes "hasGameArea e" and "hasBoard e"
  shows "\<exists>s'. startGame e s = Returned s' \<and>
           sequence s' = [randomColor e colors (draws s)] \<and> length (sequence s') = 1 \<and>
           length (playerSequence s') = 0 \<and> level s' = 1 \<and> score s' = 0 \<and>
           isPlaying s' \<and> isShowingSequence s' \<and> \<not> isPlayerTurn s' \<and> \<not> isPaused s' \<and>
           difficulty s' = difficulty s \<and> speed s' = speed s \<and>
           timers s' =
             timers s @ [(clock s + speedInterval (speed s), ShowNext (speedInterval (speed s)) 0)]"
  using assms
  by (simp add: startGame_def nextLevel_def addToSequence_def chooseColor_empty resetGame_def
      showSequence_def showLoop_def schedule_def)

theorem start_resets_witness:
  "hasGameArea (page inTurn) \<and> hasBoard (page inTurn) \<and> isPlaying midTurn \<and>
   (\<exists>s'. startGame (page inTurn) midTurn = Returned s' \<and>
           sequence s' = [Str ''green''] \<and> length (sequence s') = 1 \<and>
           length (playerSequence s') = 0 \<and> level s' = 1 \<and> score s' = 0 \<and>
           isPlaying s' \<and> isShowingSequence s' \<and> \<not> isPlayerTurn s' \<and> \<not> isPaused s' \<and>
           timers s' = [(5200, ShowNext 800 0)])"
proof -
  have g: "hasGameArea (page inTurn)" and b: "hasBoard (page inTurn)" by (simp_all add: page_def)
  have m: "timers midTurn = []" "clock midTurn = 4400" "speed midTurn = 3"
    by (simp_all add: midTurn_def)
  have c: "randomColor (page inTurn) colors (draws midTurn) = Str ''green''"
    by (simp add: randomColor_def page_def inTurn_def midTurn_def colors_def js_index_def)
  have p: "isPlaying midTurn" by (simp add: midTurn_def)
  from start_resets [OF g b, of midTurn] c g b p m show ?thesis
    by (auto simp: speedInterval_def)
qed

subsection \<open>Replaying the sequence\<close>




subsection \<open>Colours outside the four\<close>




subsection \<open>Scoring\<close>

text \<open>
  C4: in the player's turn at level \<open>L\<close>, on a page with a button for every colour, with
  level and score not negative and the score of the completed level within the range in
  which doubles add exactly: the expected colour submitted before the last position adds
  \<open>10 * L\<close> to the score and the turn goes on; submitted at the last position it adds
  \<open>10 * L\<close> and the bonus \<open>50 * L\<close>, ends the turn and schedules the next level.
  Submitting a whole sequence of \<open>n\<close> colours correctly therefore adds
  \<open>10 * L * n + 50 * L\<close>. A fresh game of any difficulty and speed, played correctly, has
  score 60 when level 1 is complete; whenever its second level is presented, that level
  has two colours at level 2 and score 60, and submitting them correctly gives 200. The
  second level is presented unless the difficulty is easy and no later random number ever
  gives a colour other than the first.
\<close>

theorem scoring:
  assumes turn: "isPlayerTurn s" and unpaused: "\<not> isPaused s"
    and buttons: "\<forall>c\<in>set (sequence s) \<union> set colors. querySelector e c = Element"
    and page: "hasGameArea e \<and> hasBoard e"
    and random: "\<forall>k. 0 \<le> mathRandom e k \<and> mathRandom e k < 1"
    and range: "0 \<le> level s \<and> 0 \<le> score s \<and>
        exact (score s + 10 * level s * int (length (sequence s)) + 50 * level s)"
  shows "(Suc (length (playerSequence s)) < length (sequence s) \<longrightarrow>
            (\<exists>s'. handleColorClick e s (sequence s ! length (playerSequence s)) = Returned s' \<and>
                  score s' = score s + 10 * level s \<and> level s' = level s \<and> isPlayerTurn s')) \<and>
         (Suc (length (playerSequence s)) = length (sequence s) \<longrightarrow>
            (\<exists>s'. handleColorClick e s (sequence s ! length (playerSequence s)) = Returned s' \<and>
                  score s' = score s + 10 * level s + 50 * level s \<and> level s' = level s \<and>
                  \<not> isPlayerTurn s' \<and> timers s' = timers s @ [(clock s + 2000, LevelUp)])) \<and>
         (playerSequence s = [] \<and> sequence s \<noteq> [] \<longrightarrow>
            (\<exists>s'. run e s (map Click (sequence s)) = Some s' \<and>
                  score s' = score s + 10 * level s * int (length (sequence s)) + 50 * level s)) \<and>
         (\<exists>s1. run e (newGame d v) [Start, Fire, Click (randomColor e colors 0)] = Some s1 \<and>
                score s1 = 60 \<and> level s1 = 1) \<and>
         (\<forall>s2. run e (newGame d v)
                 [Start, Fire, Click (randomColor e colors 0), Fire, Fire, Fire] = Some s2 \<longrightarrow>
            level s2 = 2 \<and> score s2 = 60 \<and> length (sequence s2) = 2 \<and>
            playerSequence s2 = [] \<and> isPlayerTurn s2 \<and>
            (\<exists>s3. run e s2 (map Click (sequence s2)) = Some s3 \<and> score s3 = 200 \<and> level s3 = 2)) \<and>
         (d \<noteq> ''easy'' \<or> (\<exists>n. randomColor e colors (Suc n) \<noteq> randomColor e colors 0) \<longrightarrow>
            (\<exists>s2. run e (newGame d v)
                    [Start, Fire, Click (randomColor e colors 0), Fire, Fire, Fire] = Some s2))"
proof (intro conjI impI allI)
  let ?c = "sequence s ! length (playerSequence s)"
  let ?c1 = "randomColor e colors 0"
  let ?X = "(newGame d v)\<lparr>sequence := [?c1], draws := 1\<rparr>"
  let ?six = "[Start, Fire, Click ?c1, Fire, Fire, Fire]"
  {
    assume "Suc (length (playerSequence s)) < length (sequence s)"
    then have lt: "length (playerSequence s) < length (sequence s)"
      and ne: "Suc (length (playerSequence s)) \<noteq> length (sequence s)" by simp_all
    from lt have exp: "?c = js_index (sequence s) (int (length (playerSequence s)))"
      by (simp add: js_index_nat)
    from lt buttons have el: "querySelector e ?c = Element" by simp
    from correct_step [OF turn unpaused el exp ne] turn
    show "\<exists>s'. handleColorClick e s ?c = Returned s' \<and>
                  score s' = score s + 10 * level s \<and> level s' = level s \<and> isPlayerTurn s'"
      by simp
  }
  {
    assume eq: "Suc (length (playerSequence s)) = length (sequence s)"
    then have lt: "length (playerSequence s) < length (sequence s)" by simp
    from lt have exp: "?c = js_index (sequence s) (int (length (playerSequence s)))"
      by (simp add: js_index_nat)
    from lt buttons have el: "querySelector e ?c = Element" by simp
    from correct_final [OF turn unpaused el exp eq]
    show "\<exists>s'. handleColorClick e s ?c = Returned s' \<and>
                  score s' = score s + 10 * level s + 50 * level s \<and> level s' = level s \<and>
                  \<not> isPlayerTurn s' \<and> timers s' = timers s @ [(clock s + 2000, LevelUp)]"
      by simp
  }
  {
    assume "playerSequence s = [] \<and> sequence s \<noteq> []"
    then have a: "sequence s = playerSequence s @ sequence s" and b: "sequence s \<noteq> []" by simp_all
    from buttons have c: "\<forall>c\<in>set (sequence s). querySelector e c = Element" by simp
    from play_rest [OF turn unpaused a b c]
    show "\<exists>s'. run e s (map Click (sequence s)) = Some s' \<and>
                  score s' = score s + 10 * level s * int (length (sequence s)) + 50 * level s"
      by blast
  }
  have ne: "colors \<noteq> []" by (simp add: colors_def)
  from random have inC: "randomColor e colors k \<in> set colors" for k
    by (simp add: randomColor_in_range ne)
  with buttons have el: "querySelector e ?c1 = Element" by simp
  from page have g: "hasGameArea e" and b: "hasBoard e" by simp_all
  note six = fresh_level2_turn [OF g b el, of d v]
  from fresh_level1 [OF g b el, of d v]
  show "\<exists>s1. run e (newGame d v) [Start, Fire, Click ?c1] = Some s1 \<and> score s1 = 60 \<and> level s1 = 1"
    by simp
  {
    fix s2
    assume r: "run e (newGame d v) ?six = Some s2"
    with six obtain c k where ch: "chooseColor e ?X = Some (c, k)"
      and s2: "s2 = \<lparr>sequence = [?c1, c], playerSequence = [],
             level = 2, score = 60, isPlaying = True, isShowingSequence = False,
             isPlayerTurn = True, isPaused = False, difficulty = d, speed = v,
             timers = [], clock = speedInterval v + 2000 + 2 * speedInterval v, draws = k,
             gameOvers = []\<rparr>"
      by (auto split: option.splits)
    from chooseColor_in_colors [OF random ch] buttons have elc: "querySelector e c = Element" by simp
    from s2 show "level s2 = 2" "score s2 = 60" "length (sequence s2) = 2"
      "playerSequence s2 = []" "isPlayerTurn s2" by simp_all
    have "\<exists>s'. run e s2 (map Click [?c1, c]) = Some s' \<and>
           score s' = score s2 + 10 * level s2 * int (length [?c1, c]) + 50 * level s2 \<and>
           level s' = level s2 \<and> sequence s' = sequence s2 \<and> playerSequence s' = sequence s2 \<and>
           \<not> isPlayerTurn s' \<and> timers s' = timers s2 @ [(clock s2 + 2000, LevelUp)]"
      using el elc by (intro play_rest) (simp_all add: s2)
    then show "\<exists>s3. run e s2 (map Click (sequence s2)) = Some s3 \<and> score s3 = 200 \<and> level s3 = 2"
      by (auto simp: s2)
  }
  assume "d \<noteq> ''easy'' \<or> (\<exists>n. randomColor e colors (Suc n) \<noteq> ?c1)"
  then have "difficulty ?X \<noteq> ''easy'' \<or> sequence ?X = [] \<or>
           (\<exists>n. randomColor e colors (draws ?X + n) \<noteq> last (sequence ?X))"
    by (simp add: newGame_def)
  from chooseColor_returns [OF this] obtain r where "chooseColor e ?X = Some r" ..
  with six show "\<exists>s2. run e (newGame d v) ?six = Some s2" by (cases r) simp
qed

text \<open>
  On the four-button page with the colours drawn in turn: red at level 2 takes the score
  from 60 to 80, blue then completes the level at 200, and the fresh game scores 60 and
  200; so does an easy game whose second draw is rejected.
\<close>

theorem scoring_witness:
  "isPlayerTurn midTurn \<and> \<not> isPaused midTurn \<and>
   hasGameArea (page inTurn) \<and> hasBoard (page inTurn) \<and>
   level midTurn = 2 \<and> score midTurn = 80 \<and> exact 200 \<and>
   (\<exists>s'. handleColorClick (page inTurn) (midTurn\<lparr>playerSequence := [], score := 60\<rparr>)
            (Str ''red'') = Returned s' \<and> score s' = 80 \<and> isPlayerTurn s') \<and>
   (\<exists>s'. handleColorClick (page inTurn) midTurn (Str ''blue'') = Returned s' \<and>
         score s' = 200 \<and> \<not> isPlayerTurn s') \<and>
   (\<exists>s'. run (page inTurn) (midTurn\<lparr>playerSequence := [], score := 60\<rparr>)
            [Click (Str ''red''), Click (Str ''blue'')] = Some s' \<and> score s' = 200) \<and>
   (\<exists>s1. run (page inTurn) (newGame ''medium'' 3) [Start, Fire, Click (Str ''red'')] = Some s1 \<and>
         score s1 = 60 \<and> level s1 = 1) \<and>
   (\<exists>s2 s3. run (page inTurn) (newGame ''medium'' 3)
            [Start, Fire, Click (Str ''red''), Fire, Fire, Fire] = Some s2 \<and>
         score s2 = 60 \<and> level s2 = 2 \<and>
         run (page inTurn) s2 (map Click (sequence s2)) = Some s3 \<and>
         score s3 = 200 \<and> level s3 = 2) \<and>
   (\<exists>s2 s3. run (page eachTwice) (newGame ''easy'' 3)
            [Start, Fire, Click (Str ''red''), Fire, Fire, Fire] = Some s2 \<and>
         score s2 = 60 \<and> level s2 = 2 \<and>
         run (page eachTwice) s2 (map Click (sequence s2)) = Some s3 \<and>
         score s3 = 200 \<and> level s3 = 2)"
proof -
  let ?e = "page inTurn"
  let ?e2 = "page eachTwice"
  let ?s0 = "midTurn\<lparr>playerSequence := [], score := 60\<rparr>"
  have m: "isPlayerTurn midTurn" "\<not> isPaused midTurn" "level midTurn = 2" "score midTurn = 80"
    "sequence midTurn = [Str ''red'', Str ''blue'']" "playerSequence midTurn = [Str ''red'']"
    by (simp_all add: midTurn_def)
  have p: "hasGameArea ?e \<and> hasBoard ?e" and p2: "hasGameArea ?e2 \<and> hasBoard ?e2"
    by (simp_all add: page_def)
  have r: "\<forall>k. 0 \<le> mathRandom ?e k \<and> mathRandom ?e k < 1"
    using inTurn_range by (simp add: page_def)
  have r2: "\<forall>k. 0 \<le> mathRandom ?e2 k \<and> mathRandom ?e2 k < 1"
    using eachTwice_range by (simp add: page_def)
  have b: "\<forall>c\<in>set (sequence midTurn) \<union> set colors. querySelector ?e c = Element"
    by (simp add: page_def fourButtons_def midTurn_def colors_def)
  have b0: "\<forall>c\<in>set (sequence ?s0) \<union> set colors. querySelector ?e c = Element"
    by (simp add: page_def fourButtons_def midTurn_def colors_def)
  have b2: "\<forall>c\<in>set (sequence midTurn) \<union> set colors. querySelector ?e2 c = Element"
    by (simp add: page_def fourButtons_def midTurn_def colors_def)
  have x: "exact 200" by (simp add: exact_def)
  have g: "0 \<le> level midTurn \<and> 0 \<le> score midTurn \<and>
        exact (score midTurn + 10 * level midTurn * int (length (sequence midTurn)) + 50 * level midTurn)"
    by (simp add: midTurn_def exact_def)
  have g0: "0 \<le> level ?s0 \<and> 0 \<le> score ?s0 \<and>
        exact (score ?s0 + 10 * level ?s0 * int (length (sequence ?s0)) + 50 * level ?s0)"
    by (simp add: midTurn_def exact_def)
  have c: "randomColor ?e colors 0 = Str ''red''"
    by (simp add: randomColor_def page_def inTurn_def colors_def js_index_def)
  have c2: "randomColor ?e2 colors 0 = Str ''red''" "randomColor ?e2 colors (Suc 1) \<noteq> Str ''red''"
    by (simp_all add: randomColor_def page_def eachTwice_def colors_def js_index_def)
  have d: "''medium'' \<noteq> ''easy''" by simp
  note A = scoring [OF m(1,2) b p r g, of "''medium''" 3, unfolded c]
  have m0: "isPlayerTurn ?s0" "\<not> isPaused ?s0" using m by simp_all
  note B = scoring [OF m0 b0 p r g0, of "''medium''" 3, unfolded c]
  note C = scoring [OF m(1,2) b2 p2 r2 g, of "''easy''" 3, unfolded c2(1)]
  from A m have A1: "\<exists>s'. handleColorClick ?e midTurn (Str ''blue'') = Returned s' \<and>
         score s' = 200 \<and> \<not> isPlayerTurn s'"
    by auto
  from A have A2: "\<exists>s1. run ?e (newGame ''medium'' 3) [Start, Fire, Click (Str ''red'')] = Some s1 \<and>
         score s1 = 60 \<and> level s1 = 1"
    by blast
  from A d obtain s2 where s2: "run ?e (newGame ''medium'' 3)
            [Start, Fire, Click (Str ''red''), Fire, Fire, Fire] = Some s2" by blast
  with A have A3: "\<exists>s2 s3. run ?e (newGame ''medium'' 3)
            [Start, Fire, Click (Str ''red''), Fire, Fire, Fire] = Some s2 \<and>
         score s2 = 60 \<and> level s2 = 2 \<and>
         run ?e s2 (map Click (sequence s2)) = Some s3 \<and>
         score s3 = 200 \<and> level s3 = 2"
    by blast
  from C c2(2) obtain t2 where t2: "run ?e2 (newGame ''easy'' 3)
            [Start, Fire, Click (Str ''red''), Fire, Fire, Fire] = Some t2" by blast
  with C have C3: "\<exists>s2 s3. run ?e2 (newGame ''easy'' 3)
            [Start, Fire, Click (Str ''red''), Fire, Fire, Fire] = Some s2 \<and>
         score s2 = 60 \<and> level s2 = 2 \<and>
         run ?e2 s2 (map Click (sequence s2)) = Some s3 \<and>
         score s3 = 200 \<and> level s3 = 2"
    by blast
  from B m have B1: "(\<exists>s'. handleColorClick ?e ?s0 (Str ''red'') = Returned s' \<and> score s' = 80 \<and> isPlayerTurn s') \<and>
     (\<exists>s'. run ?e ?s0 [Click (Str ''red''), Click (Str ''blue'')] = Some s' \<and> score s' = 200)"
    by (auto simp del: run.simps)
  from A1 A2 A3 C3 B1 m p x show ?thesis by (simp del: run.simps)
qed

subsection \<open>The player's turn after a mismatch\<close>

text \<open>
  \<open>handleSequenceComplete\<close> closes the player's turn before it sets its timer;
  \<open>handleIncorrectColor\<close> sets its timer and leaves \<open>isPlayerTurn\<close> as it is, and only
  \<open>endGame\<close>, 1500 ms later, closes the turn. Until then submissions are still taken.
\<close>

text \<open>
  C1, at a play where it fails: the sequence is red; 300 ms into the player's turn blue is
  submitted (a mismatch), and 200 ms later blue again, well before \<open>endGame\<close> is due (the
  buttons, enabled by \<open>startPlayerTurn\<close>, are still enabled). The second submission is
  appended as well: the player sequence has two elements, the sequence one.
\<close>

theorem mismatch_leaves_turn_open:
  "run (page allZero) (newGame ''medium'' 3)
     [Start, Fire, Wait 300, Click (Str ''blue''), Wait 200, Click (Str ''blue'')] =
   Some \<lparr>sequence = [Str ''red''], playerSequence = [Str ''blue'', Str ''blue''],
     level = 1, score = 0, isPlaying = True, isShowingSequence = False,
     isPlayerTurn = True, isPaused = False, difficulty = ''medium'',
     speed = 3, timers = [(2600, EndGame), (2800, EndGame)], clock = 1300,
     draws = 1, gameOvers = []\<rparr>"
  by code_simp

lemma after_mismatch:
  "run (page inTurn) (midTurn\<lparr>playerSequence := [], score := 60\<rparr>) [Wait 300, Click (Str ''green'')] =
   Some (midTurn\<lparr>playerSequence := [Str ''green''], score := 60, timers := [(6200, EndGame)], clock := 4700\<rparr>)"
  by code_simp

lemma after_late_match:
  "run (page inTurn) (midTurn\<lparr>playerSequence := [Str ''green''], score := 60, timers := [(6200, EndGame)], clock := 4700\<rparr>)
     [Wait 500, Click (Str ''blue''), Fire] =
   Some (midTurn\<lparr>playerSequence := [Str ''green'', Str ''blue''], score := 180, isPlaying := False,
      isPlayerTurn := False, timers := [(7200, LevelUp)], clock := 6200, gameOvers := [180]\<rparr>)"
  by code_simp

text \<open>
  C2, at a play where it fails: at level 2 with the sequence red, blue and score 60, green
  is submitted (a mismatch: the score stays 60 and \<open>endGame\<close> is set for 1500 ms later);
  500 ms later blue is submitted, which matches the second position, scores 20, and
  completes the level for a bonus of 100. When \<open>endGame\<close> runs it announces 180, not
  60.
\<close>

theorem score_after_mismatch:
  "map_option (\<lambda>s. (score s, isPlayerTurn s, timers s, gameOvers s))
     (run (page inTurn) (newGame ''medium'' 3)
        [Start, Fire, Click (Str ''red''), Fire, Fire, Fire, Wait 300, Click (Str ''green'')]) =
     Some (60, True, [(6200, EndGame)], []) \<and>
   map_option (\<lambda>s. (score s, isPlaying s, timers s, gameOvers s))
     (run (page inTurn) (newGame ''medium'' 3)
        [Start, Fire, Click (Str ''red''), Fire, Fire, Fire, Wait 300, Click (Str ''green''),
         Wait 500, Click (Str ''blue''), Fire]) =
     Some (180, False, [(7200, LevelUp)], [180])"
proof -
  let ?lvl = "[Start, Fire, Click (Str ''red''), Fire, Fire, Fire]"
  let ?miss = "[Wait 300, Click (Str ''green'')]"
  let ?late = "[Wait 500, Click (Str ''blue''), Fire]"
  have "run (page inTurn) (newGame ''medium'' 3) (?lvl @ ?miss) =
      Some (midTurn\<lparr>playerSequence := [Str ''green''], score := 60, timers := [(6200, EndGame)], clock := 4700\<rparr>)"
    by (simp only: run_append levelTwo_reached after_mismatch option.case)
  moreover have "run (page inTurn) (newGame ''medium'' 3) ((?lvl @ ?miss) @ ?late) =
      Some (midTurn\<lparr>playerSequence := [Str ''green'', Str ''blue''], score := 180, isPlaying := False,
      isPlayerTurn := False, timers := [(7200, LevelUp)], clock := 6200, gameOvers := [180]\<rparr>)"
    by (simp only: run_append levelTwo_reached after_mismatch after_late_match option.case)
  ultimately show ?thesis by (simp add: midTurn_def del: run.simps)
qed

end
